theory Spec2Isabelle
  imports Main
begin

section \<open>Data model\<close>

text \<open>
  The two relational tables of \<^verbatim>\<open>database/init.sql\<close> and the objects the services
  exchange. Identifiers are the values of INTEGER/SERIAL columns, modelled as \<open>int\<close>;
  timestamps are abstract ticks. Field names carry a short prefix because record
  fields share one name space (\<open>u_\<close> for a row of \<^verbatim>\<open>users\<close>, \<open>ci_\<close> for a row of
  \<^verbatim>\<open>cart_items\<close>).
\<close>

datatype UserRole = RoleUser | RoleAdmin

record users_row =
  u_id :: int
  u_email :: string
  u_password :: string
  u_first_name :: "string option"
  u_last_name :: "string option"
  u_phone :: "string option"
  u_role :: UserRole
  u_is_active :: bool
  u_created_at :: nat
  u_updated_at :: nat

record cart_items_row =
  ci_id :: int
  ci_user_id :: int
  ci_course_id :: int
  ci_bought :: bool
  ci_added_at :: nat

text \<open>
  The store: both tables in insertion order and the two SERIAL sequences (the next
  value each will hand out). The store answers every statement: a lost connection is
  not part of the model.
\<close>

record database =
  users :: "users_row list"
  cart_items :: "cart_items_row list"
  users_id_seq :: int
  cart_items_id_seq :: int

text \<open>
  Failures. \<open>Error m\<close> is \<^verbatim>\<open>new Error(m)\<close> thrown by a service; \<open>DatabaseError code m\<close>
  is the error the driver raises when the store rejects a statement (SQLSTATE code and
  message); \<open>TypeError m\<close> is a property read on \<^verbatim>\<open>undefined\<close>.
\<close>

datatype error = Error string | DatabaseError string string | TypeError string

fun message :: "error \<Rightarrow> string" where
  "message (Error m) = m"
| "message (DatabaseError c m) = m"
| "message (TypeError m) = m"

definition unique_violation :: "string \<Rightarrow> error" where
  "unique_violation constraint_name =
     DatabaseError ''23505''
       (''duplicate key value violates unique constraint '' @ [CHR 0x22] @ constraint_name @ [CHR 0x22])"

definition foreign_key_violation :: "string \<Rightarrow> string \<Rightarrow> error" where
  "foreign_key_violation table_name constraint_name =
     DatabaseError ''23503''
       (''insert or update on table '' @ [CHR 0x22] @ table_name @ [CHR 0x22]
        @ '' violates foreign key constraint '' @ [CHR 0x22] @ constraint_name @ [CHR 0x22])"

definition value_too_long :: "string \<Rightarrow> error" where
  "value_too_long type_name = DatabaseError ''22001'' (''value too long for type '' @ type_name)"

section \<open>Cart store and cart service\<close>

text \<open>
  A row object as the driver returns it: a column that the SELECT list does not name is
  \<^verbatim>\<open>undefined\<close> on the object, here \<open>None\<close>.
\<close>

datatype cart_col = Col_id | Col_user_id | Col_course_id | Col_bought | Col_added_at

record CartItemDbRow =
  r_id :: "int option"
  r_user_id :: "int option"
  r_course_id :: "int option"
  r_bought :: "bool option"
  r_added_at :: "nat option"

definition select_cols :: "cart_col list \<Rightarrow> cart_items_row \<Rightarrow> CartItemDbRow" where
  "select_cols cols r =
     \<lparr> r_id = (if Col_id \<in> set cols then Some (ci_id r) else None),
       r_user_id = (if Col_user_id \<in> set cols then Some (ci_user_id r) else None),
       r_course_id = (if Col_course_id \<in> set cols then Some (ci_course_id r) else None),
       r_bought = (if Col_bought \<in> set cols then Some (ci_bought r) else None),
       r_added_at = (if Col_added_at \<in> set cols then Some (ci_added_at r) else None) \<rparr>"

text \<open>JavaScript truthiness of a boolean property that may be \<^verbatim>\<open>undefined\<close>.\<close>

fun truthy :: "bool option \<Rightarrow> bool" where
  "truthy None = False"
| "truthy (Some b) = b"

record CartItem =
  item_id :: "int option"
  item_userId :: "int option"
  item_courseId :: "int option"
  item_addedAt :: "nat option"

definition mapRowToCartItem :: "CartItemDbRow \<Rightarrow> CartItem" where
  "mapRowToCartItem row =
     \<lparr> item_id = r_id row, item_userId = r_user_id row,
       item_courseId = r_course_id row, item_addedAt = r_added_at row \<rparr>"

text \<open>
  \<^verbatim>\<open>INSERT INTO cart_items (user_id, course_id) VALUES ($1, $2)\<close>: the id comes from the
  sequence (which advances even when the statement is rejected), \<^verbatim>\<open>bought\<close> defaults to
  FALSE, \<^verbatim>\<open>added_at\<close> to the current time. The store rejects the row on the primary
  key, on UNIQUE(user_id, course_id) and on the foreign key to \<^verbatim>\<open>users\<close>.
\<close>

definition insert_cart_item ::
  "nat \<Rightarrow> database \<Rightarrow> int \<Rightarrow> int \<Rightarrow> (error + cart_items_row) \<times> database" where
  "insert_cart_item now db userId courseId =
     (let newId = cart_items_id_seq db;
          db1 = db\<lparr>cart_items_id_seq := newId + 1\<rparr>;
          row = \<lparr> ci_id = newId, ci_user_id = userId, ci_course_id = courseId,
                  ci_bought = False, ci_added_at = now \<rparr>
      in if list_ex (\<lambda>r. ci_id r = newId) (cart_items db)
           then (Inl (unique_violation ''cart_items_pkey''), db1)
         else if list_ex (\<lambda>r. ci_user_id r = userId \<and> ci_course_id r = courseId) (cart_items db)
           then (Inl (unique_violation ''cart_items_user_id_course_id_key''), db1)
         else if \<not> list_ex (\<lambda>u. u_id u = userId) (users db)
           then (Inl (foreign_key_violation ''cart_items'' ''cart_items_user_id_fkey''), db1)
         else (Inr row, db1\<lparr>cart_items := cart_items db @ [row]\<rparr>))"

text \<open>
  \<^verbatim>\<open>CartService.addToCart\<close>, first statement: the existence check. The query is
  \<^verbatim>\<open>SELECT id FROM cart_items WHERE user_id = $1 AND course_id = $2\<close>, so the row object
  it tests carries the column \<^verbatim>\<open>id\<close> only. The result is the error thrown, if any.
\<close>

definition addToCart_check :: "database \<Rightarrow> int \<Rightarrow> int \<Rightarrow> error option" where
  "addToCart_check db userId courseId =
     (let existingItem =
            map (select_cols [Col_id])
              (filter (\<lambda>r. ci_user_id r = userId \<and> ci_course_id r = courseId) (cart_items db))
      in case existingItem of
           [] \<Rightarrow> None
         | row0 # _ \<Rightarrow>
             (if truthy (r_bought row0) then Some (Error ''You already bought it'')
              else Some (Error ''Course already in Cart'')))"

text \<open>
  Second and third statement: the INSERT, then the SELECT of the new row by its id and
  the mapping to a \<open>CartItem\<close>. An error of the store is not caught (the method has a
  \<^verbatim>\<open>finally\<close> only), so it leaves the method as it is.
\<close>

definition addToCart_insert ::
  "nat \<Rightarrow> database \<Rightarrow> int \<Rightarrow> int \<Rightarrow> (error + CartItem) \<times> database" where
  "addToCart_insert now db userId courseId =
     (case insert_cart_item now db userId courseId of
        (Inl e, db1) \<Rightarrow> (Inl e, db1)
      | (Inr inserted, db1) \<Rightarrow>
          (case map (select_cols [Col_id, Col_user_id, Col_course_id, Col_bought, Col_added_at])
                  (filter (\<lambda>r. ci_id r = ci_id inserted) (cart_items db1)) of
             [] \<Rightarrow> (Inl (TypeError ''Cannot read properties of undefined''), db1)
           | row0 # _ \<Rightarrow> (Inr (mapRowToCartItem row0), db1)))"

definition addToCart :: "nat \<Rightarrow> database \<Rightarrow> int \<Rightarrow> int \<Rightarrow> (error + CartItem) \<times> database" where
  "addToCart now db userId courseId =
     (case addToCart_check db userId courseId of
        Some e \<Rightarrow> (Inl e, db)
      | None \<Rightarrow> addToCart_insert now db userId courseId)"

text \<open>
  Every statement is awaited, so other requests run between the check and the INSERT.
  \<open>addToCart_interleaved\<close> is the same method with the store changed by \<open>others\<close> at
  that suspension point.
\<close>

definition addToCart_interleaved ::
  "nat \<Rightarrow> database \<Rightarrow> (database \<Rightarrow> database) \<Rightarrow> int \<Rightarrow> int \<Rightarrow> (error + CartItem) \<times> database" where
  "addToCart_interleaved now db others userId courseId =
     (case addToCart_check db userId courseId of
        Some e \<Rightarrow> (Inl e, db)
      | None \<Rightarrow> addToCart_insert now (others db) userId courseId)"

text \<open>
  \<^verbatim>\<open>DELETE FROM cart_items WHERE user_id = $1 AND course_id = $2 AND bought = false\<close>;
  the result is \<^verbatim>\<open>rowCount > 0\<close>.
\<close>

definition removeFromCart :: "database \<Rightarrow> int \<Rightarrow> int \<Rightarrow> bool \<times> database" where
  "removeFromCart db userId courseId =
     (let hit = (\<lambda>r. ci_user_id r = userId \<and> ci_course_id r = courseId \<and> ci_bought r = False);
          rowCount = length (filter hit (cart_items db))
      in (rowCount > 0, db\<lparr>cart_items := filter (\<lambda>r. \<not> hit r) (cart_items db)\<rparr>))"

text \<open>
  \<^verbatim>\<open>clearCart\<close>: with \<open>bought\<close> the statement is
  \<^verbatim>\<open>UPDATE cart_items SET bought = true WHERE user_id = $1\<close>, otherwise
  \<^verbatim>\<open>DELETE FROM cart_items WHERE user_id = $1 and bought = false\<close>. An UPDATE counts
  every row its WHERE clause selects, whether or not the value changes.
\<close>

definition clearCart :: "database \<Rightarrow> int \<Rightarrow> bool \<Rightarrow> bool \<times> database" where
  "clearCart db userId bought =
     (if bought then
        (let rowCount = length (filter (\<lambda>r. ci_user_id r = userId) (cart_items db))
         in (rowCount > 0,
             db\<lparr>cart_items :=
                  map (\<lambda>r. if ci_user_id r = userId then r\<lparr>ci_bought := True\<rparr> else r)
                    (cart_items db)\<rparr>))
      else
        (let hit = (\<lambda>r. ci_user_id r = userId \<and> ci_bought r = False);
             rowCount = length (filter hit (cart_items db))
         in (rowCount > 0, db\<lparr>cart_items := filter (\<lambda>r. \<not> hit r) (cart_items db)\<rparr>)))"

text \<open>
  \<^verbatim>\<open>SELECT COUNT(*) as count FROM cart_items WHERE user_id = $1 AND bought = false\<close>,
  read back with \<^verbatim>\<open>parseInt\<close>.
\<close>

definition getCartItemCount :: "database \<Rightarrow> int \<Rightarrow> int" where
  "getCartItemCount db userId =
     int (length (filter (\<lambda>r. ci_user_id r = userId \<and> ci_bought r = False) (cart_items db)))"

definition isInCart :: "database \<Rightarrow> int \<Rightarrow> int \<Rightarrow> bool" where
  "isInCart db userId courseId =
     (length (filter (\<lambda>r. ci_user_id r = userId \<and> ci_course_id r = courseId \<and> ci_bought r = False)
                (cart_items db)) > 0)"

section \<open>Credential store and user service\<close>

record User =
  usr_id :: int
  usr_email :: string
  usr_firstName :: "string option"
  usr_lastName :: "string option"
  usr_phone :: "string option"
  usr_role :: UserRole
  usr_isActive :: bool
  usr_createdAt :: nat
  usr_updatedAt :: nat

record AuthUser =
  au_id :: int
  au_email :: string
  au_role :: UserRole

record LoginRequest =
  lg_email :: string
  lg_password :: string

record RegisterRequest =
  rq_email :: string
  rq_password :: string
  rq_firstName :: "string option"
  rq_lastName :: "string option"
  rq_phone :: "string option"
  rq_role :: "UserRole option"

record JWTPayload =
  jwt_userId :: int
  jwt_email :: string
  jwt_role :: UserRole

text \<open>
  The libraries \<^verbatim>\<open>bcryptjs\<close> and \<^verbatim>\<open>jsonwebtoken\<close> are not part of the repository; the
  services take their functions as parameters. \<open>bcrypt_hash\<close> is
  \<^verbatim>\<open>bcrypt.hash(password, rounds)\<close> (with the salt it draws), \<open>bcrypt_compare\<close> is
  \<^verbatim>\<open>bcrypt.compare(password, hash)\<close>, \<open>jwt_sign\<close> is \<^verbatim>\<open>jwt.sign\<close> with the secret and the
  expiry fixed, and \<open>jwt_verify\<close> is \<^verbatim>\<open>jwt.verify\<close> with the secret at the time of the
  request: \<open>None\<close> when it throws (bad signature, malformed or expired token).
\<close>

type_synonym bcrypt_hash = "string \<Rightarrow> nat \<Rightarrow> string"
type_synonym bcrypt_compare = "string \<Rightarrow> string \<Rightarrow> bool"
type_synonym jwt_sign = "JWTPayload \<Rightarrow> string"
type_synonym jwt_verify = "string \<Rightarrow> JWTPayload option"

definition saltRounds :: nat where
  "saltRounds = 10"

definition mapRowToUser :: "users_row \<Rightarrow> User" where
  "mapRowToUser row =
     \<lparr> usr_id = u_id row, usr_email = u_email row, usr_firstName = u_first_name row,
       usr_lastName = u_last_name row, usr_phone = u_phone row, usr_role = u_role row,
       usr_isActive = u_is_active row, usr_createdAt = u_created_at row,
       usr_updatedAt = u_updated_at row \<rparr>"

definition generateToken :: "jwt_sign \<Rightarrow> User \<Rightarrow> string" where
  "generateToken sign user =
     sign \<lparr> jwt_userId = usr_id user, jwt_email = usr_email user, jwt_role = usr_role user \<rparr>"

text \<open>
  The widths of the columns of \<^verbatim>\<open>users\<close>: \<^verbatim>\<open>email\<close> and \<^verbatim>\<open>password\<close> are VARCHAR(255),
  \<^verbatim>\<open>first_name\<close> and \<^verbatim>\<open>last_name\<close> VARCHAR(100), \<^verbatim>\<open>phone\<close> VARCHAR(20); the last three
  may be NULL. \<open>within n v\<close> says that \<open>v\<close> fits a column of width \<open>n\<close>, and
  \<open>column_overflow\<close> names the type of the first column that a value does not fit.
\<close>

definition within :: "nat \<Rightarrow> string option \<Rightarrow> bool" where
  "within n v = (case v of None \<Rightarrow> True | Some s \<Rightarrow> length s \<le> n)"

definition column_overflow ::
  "string \<Rightarrow> string \<Rightarrow> string option \<Rightarrow> string option \<Rightarrow> string option \<Rightarrow> string option" where
  "column_overflow email password first_name last_name phone =
     (if length email > 255 then Some ''character varying(255)''
      else if length password > 255 then Some ''character varying(255)''
      else if \<not> within 100 first_name then Some ''character varying(100)''
      else if \<not> within 100 last_name then Some ''character varying(100)''
      else if \<not> within 20 phone then Some ''character varying(20)''
      else None)"

text \<open>
  \<^verbatim>\<open>INSERT INTO users (email, password, first_name, last_name, phone, role)\<close>: the id
  comes from the sequence, \<^verbatim>\<open>is_active\<close> defaults to TRUE and both timestamps to the
  current time. The store rejects a value longer than its column (SQLSTATE 22001, the
  widths are checked first), and the row on the primary key and on UNIQUE(email).
  PostgreSQL makes one exception to the first rule: a longer value whose excess
  characters are all spaces is stored cut to the width. The model rejects such a value
  like every other value that is too long, so nothing below speaks of an INSERT that
  succeeds through that exception.
\<close>

definition insert_user ::
  "nat \<Rightarrow> database \<Rightarrow> string \<Rightarrow> string \<Rightarrow> string option \<Rightarrow> string option \<Rightarrow> string option
     \<Rightarrow> UserRole \<Rightarrow> (error + users_row) \<times> database" where
  "insert_user now db email password first_name last_name phone role =
     (case column_overflow email password first_name last_name phone of
        Some type_name \<Rightarrow> (Inl (value_too_long type_name), db)
      | None \<Rightarrow>
          (let newId = users_id_seq db;
               db1 = db\<lparr>users_id_seq := newId + 1\<rparr>;
               row = \<lparr> u_id = newId, u_email = email, u_password = password,
                       u_first_name = first_name, u_last_name = last_name, u_phone = phone,
                       u_role = role, u_is_active = True, u_created_at = now,
                       u_updated_at = now \<rparr>
           in if list_ex (\<lambda>r. u_id r = newId) (users db)
                then (Inl (unique_violation ''users_pkey''), db1)
              else if list_ex (\<lambda>r. u_email r = email) (users db)
                then (Inl (unique_violation ''users_email_key''), db1)
              else (Inr row, db1\<lparr>users := users db @ [row]\<rparr>)))"

text \<open>\<^verbatim>\<open>UserService.register(userData, requestingUser?)\<close>.\<close>

definition register ::
  "bcrypt_hash \<Rightarrow> jwt_sign \<Rightarrow> nat \<Rightarrow> database \<Rightarrow> RegisterRequest \<Rightarrow> AuthUser option
     \<Rightarrow> (error + User \<times> string) \<times> database" where
  "register hash sign now db userData requestingUser =
     (let existingUser = filter (\<lambda>r. u_email r = rq_email userData) (users db)
      in if length existingUser > 0
           then (Inl (Error ''User already exists with this email''), db)
         else
           (let hashedPassword = hash (rq_password userData) saltRounds;
                role = (if rq_role userData = Some RoleAdmin
                           \<and> (case requestingUser of None \<Rightarrow> False
                                | Some requester \<Rightarrow> au_role requester = RoleAdmin)
                        then RoleAdmin else RoleUser)
            in case insert_user now db (rq_email userData) hashedPassword
                      (rq_firstName userData) (rq_lastName userData) (rq_phone userData) role of
                 (Inl e, db1) \<Rightarrow> (Inl e, db1)
               | (Inr row, db1) \<Rightarrow>
                   (let user = mapRowToUser row; token = generateToken sign user
                    in (Inr (user, token), db1))))"

text \<open>
  \<^verbatim>\<open>UserService.login(credentials)\<close>; the query is
  \<^verbatim>\<open>SELECT * FROM users WHERE email = $1 AND is_active = true\<close>.
\<close>

definition login ::
  "bcrypt_compare \<Rightarrow> jwt_sign \<Rightarrow> database \<Rightarrow> LoginRequest \<Rightarrow> error + User \<times> string" where
  "login compare sign db credentials =
     (case filter (\<lambda>r. u_email r = lg_email credentials \<and> u_is_active r = True) (users db) of
        [] \<Rightarrow> Inl (Error ''User not exist'')
      | userData # _ \<Rightarrow>
          (if \<not> compare (lg_password credentials) (u_password userData)
             then Inl (Error ''Password is invalid'')
           else (let user = mapRowToUser userData; token = generateToken sign user
                 in Inr (user, token))))"

text \<open>
  \<^verbatim>\<open>UserService.deactivateUser(userId, requestingUser)\<close>; the statement is
  \<^verbatim>\<open>UPDATE users SET is_active = false, updated_at = $1 WHERE id = $2\<close>.
\<close>

definition deactivateUser ::
  "nat \<Rightarrow> database \<Rightarrow> int \<Rightarrow> AuthUser \<Rightarrow> (error + bool) \<times> database" where
  "deactivateUser now db userId requestingUser =
     (if au_role requestingUser \<noteq> RoleAdmin then (Inl (Error ''Access denied''), db)
      else
        (let rowCount = length (filter (\<lambda>r. u_id r = userId) (users db))
         in (Inr (rowCount > 0),
             db\<lparr>users :=
                  map (\<lambda>r. if u_id r = userId
                            then r\<lparr>u_is_active := False, u_updated_at := now\<rparr> else r)
                    (users db)\<rparr>)))"

section \<open>HTTP layer\<close>

text \<open>
  An Express request carries the \<^verbatim>\<open>Authorization\<close> header, the parsed body and the
  property \<^verbatim>\<open>user\<close>, which only the authentication middleware sets. A response is the
  status with the fields of the JSON envelope that the handlers fill.
\<close>

record 'b Request =
  req_authorization :: "string option"
  req_body :: 'b
  req_user :: "AuthUser option"

record Response =
  status :: nat
  success :: bool
  res_message :: string
  res_error :: "string option"
  res_user :: "User option"
  res_token :: "string option"
  res_item :: "CartItem option"

definition json :: "nat \<Rightarrow> bool \<Rightarrow> string \<Rightarrow> Response" where
  "json code ok msg =
     \<lparr> status = code, success = ok, res_message = msg, res_error = None,
       res_user = None, res_token = None, res_item = None \<rparr>"

text \<open>A request as it enters a router: no handler has run, so \<^verbatim>\<open>req.user\<close> is undefined.\<close>

definition incoming :: "string option \<Rightarrow> 'b \<Rightarrow> 'b Request" where
  "incoming authHeader body =
     \<lparr> req_authorization = authHeader, req_body = body, req_user = None \<rparr>"

text \<open>
  A middleware either answers the request or calls \<^verbatim>\<open>next()\<close> with the request as it
  has left it.
\<close>

datatype 'b handled = Responded Response | Next "'b Request"

text \<open>\<^verbatim>\<open>AuthMiddleware.authenticate\<close>.\<close>

definition authenticate :: "jwt_verify \<Rightarrow> database \<Rightarrow> 'b Request \<Rightarrow> 'b handled" where
  "authenticate verify db req =
     (case req_authorization req of
        None \<Rightarrow> Responded (json 401 False ''Access token required'')
      | Some authHeader \<Rightarrow>
          (if \<not> (take 7 authHeader = ''Bearer '')
             then Responded (json 401 False ''Access token required'')
           else
             (let token = drop 7 authHeader
              in case verify token of
                   None \<Rightarrow> Responded (json 401 False ''Invalid token'')
                 | Some decoded \<Rightarrow>
                     (case filter (\<lambda>r. u_id r = jwt_userId decoded) (users db) of
                        [] \<Rightarrow> Responded (json 401 False ''Invalid or expired token'')
                      | user # _ \<Rightarrow>
                          (if \<not> u_is_active user
                             then Responded (json 401 False ''Invalid or expired token'')
                           else Next (req\<lparr>req_user :=
                                  Some \<lparr> au_id = u_id user, au_email = u_email user,
                                         au_role = u_role user \<rparr>\<rparr>))))))"

text \<open>
  \<^verbatim>\<open>CartController.addToCart\<close>. The body's \<^verbatim>\<open>courseId\<close> is what the API schema declares,
  an integer, or absent; \<^verbatim>\<open>!courseId\<close> holds when it is absent or 0.
\<close>

definition CartController_addToCart ::
  "nat \<Rightarrow> database \<Rightarrow> (int option) Request \<Rightarrow> Response \<times> database" where
  "CartController_addToCart now db req =
     (case req_user req of
        None \<Rightarrow> (json 401 False ''User not authenticated'', db)
      | Some user \<Rightarrow>
          (case req_body req of
             None \<Rightarrow> (json 400 False ''Valid course ID is required'', db)
           | Some courseId \<Rightarrow>
               (if courseId = 0 then (json 400 False ''Valid course ID is required'', db)
                else
                  (case addToCart now db (au_id user) courseId of
                     (Inr item, db1) \<Rightarrow>
                       ((json 201 True ''Course added to cart successfully'')
                          \<lparr>res_item := Some item\<rparr>, db1)
                   | (Inl err, db1) \<Rightarrow>
                       (if message err = ''Course not found''
                          then (json 404 False (message err), db1)
                        else if message err = ''Course already in cart''
                          then (json 409 False (message err), db1)
                        else (json 500 False (message err), db1))))))"

text \<open>
  \<^verbatim>\<open>routes/cart.ts\<close>: \<^verbatim>\<open>router.use(authMiddleware.authenticate)\<close>, then
  \<^verbatim>\<open>router.post('/', cartController.addToCart)\<close>.
\<close>

definition POST_api_cart ::
  "jwt_verify \<Rightarrow> nat \<Rightarrow> database \<Rightarrow> string option \<Rightarrow> int option \<Rightarrow> Response \<times> database" where
  "POST_api_cart verify now db authHeader body =
     (case authenticate verify db (incoming authHeader body) of
        Responded res \<Rightarrow> (res, db)
      | Next req \<Rightarrow> CartController_addToCart now db req)"

text \<open>
  The body of a registration request: any field may be missing. Strings are sequences
  of character codes below 256; \<^verbatim>\<open>\s\<close> of the e-mail pattern
  \<^verbatim>\<open>/^[^\s@]+@[^\s@]+\.[^\s@]+$/\<close> is then tab, line feed, vertical tab, form feed,
  carriage return, space and no-break space.
\<close>

record register_body =
  b_email :: "string option"
  b_password :: "string option"
  b_firstName :: "string option"
  b_lastName :: "string option"
  b_phone :: "string option"
  b_role :: "UserRole option"

definition is_space :: "char \<Rightarrow> bool" where
  "is_space ch = (ch \<in> set [CHR 0x09, CHR 0x0A, CHR 0x0B, CHR 0x0C, CHR 0x0D, CHR 0x20, CHR 0xA0])"

definition plain :: "char \<Rightarrow> bool" where
  "plain ch = (\<not> is_space ch \<and> ch \<noteq> CHR ''@'')"

definition emailRegex_test :: "string \<Rightarrow> bool" where
  "emailRegex_test s =
     (let localPart = takeWhile plain s;
          rest = drop (length localPart + 1) s
      in localPart \<noteq> [] \<and> length localPart < length s \<and> s ! length localPart = CHR ''@''
         \<and> list_all plain rest
         \<and> list_ex (\<lambda>i. rest ! i = CHR ''.'') [1 ..< length rest - 1])"

text \<open>\<^verbatim>\<open>AuthController.register\<close>.\<close>

definition AuthController_register ::
  "bcrypt_hash \<Rightarrow> jwt_sign \<Rightarrow> nat \<Rightarrow> database \<Rightarrow> register_body Request \<Rightarrow> Response \<times> database" where
  "AuthController_register hash sign now db req =
     (case (b_email (req_body req), b_password (req_body req)) of
        (Some email, Some password) \<Rightarrow>
          (if email = [] \<or> password = []
             then (json 400 False ''Email and password are required'', db)
           else if \<not> emailRegex_test email
             then (json 400 False ''Invalid email format'', db)
           else if length password < 6
             then (json 400 False ''Password must be at least 6 characters long'', db)
           else
             (case register hash sign now db
                     \<lparr> rq_email = email, rq_password = password,
                       rq_firstName = b_firstName (req_body req),
                       rq_lastName = b_lastName (req_body req),
                       rq_phone = b_phone (req_body req),
                       rq_role = b_role (req_body req) \<rparr>
                     (req_user req) of
                (Inr (user, token), db1) \<Rightarrow>
                  ((json 201 True ''User registered successfully'')
                     \<lparr>res_user := Some user, res_token := Some token\<rparr>, db1)
              | (Inl err, db1) \<Rightarrow>
                  ((json 400 False
                      (if message err = [] then ''Registration failed'' else message err))
                     \<lparr>res_error := Some (message err)\<rparr>, db1)))
      | _ \<Rightarrow> (json 400 False ''Email and password are required'', db))"

text \<open>
  \<^verbatim>\<open>routes/auth.ts\<close>: \<^verbatim>\<open>router.post('/register', authController.register)\<close>, the
  controller alone, with no middleware before it.
\<close>

definition POST_api_auth_register ::
  "bcrypt_hash \<Rightarrow> jwt_sign \<Rightarrow> nat \<Rightarrow> database \<Rightarrow> string option \<Rightarrow> register_body
     \<Rightarrow> Response \<times> database" where
  "POST_api_auth_register hash sign now db authHeader body =
     AuthController_register hash sign now db (incoming authHeader body)"

section \<open>Store invariants\<close>

text \<open>
  Predicates on a state of the store, and what the schema and the sequences guarantee
  of every state it reaches: the sequences lie above the ids in use, and no two rows of
  \<^verbatim>\<open>cart_items\<close> share (user_id, course_id).
\<close>

definition cart_row_exists :: "database \<Rightarrow> int \<Rightarrow> int \<Rightarrow> bool" where
  "cart_row_exists db userId courseId =
     list_ex (\<lambda>r. ci_user_id r = userId \<and> ci_course_id r = courseId) (cart_items db)"

definition user_exists :: "database \<Rightarrow> int \<Rightarrow> bool" where
  "user_exists db userId = list_ex (\<lambda>u. u_id u = userId) (users db)"

definition email_exists :: "database \<Rightarrow> string \<Rightarrow> bool" where
  "email_exists db email = list_ex (\<lambda>u. u_email u = email) (users db)"

definition cart_ids_fresh :: "database \<Rightarrow> bool" where
  "cart_ids_fresh db = list_all (\<lambda>r. ci_id r < cart_items_id_seq db) (cart_items db)"


definition cart_unique :: "database \<Rightarrow> bool" where
  "cart_unique db = distinct (map (\<lambda>r. (ci_user_id r, ci_course_id r)) (cart_items db))"

definition new_cart_row :: "nat \<Rightarrow> database \<Rightarrow> int \<Rightarrow> int \<Rightarrow> cart_items_row" where
  "new_cart_row now db userId courseId =
     \<lparr> ci_id = cart_items_id_seq db, ci_user_id = userId, ci_course_id = courseId,
       ci_bought = False, ci_added_at = now \<rparr>"

text \<open>The values of a registration fit their columns, given the hashed password.\<close>

definition fits_columns :: "string \<Rightarrow> RegisterRequest \<Rightarrow> bool" where
  "fits_columns hashedPassword userData =
     (length (rq_email userData) \<le> 255 \<and> length hashedPassword \<le> 255
      \<and> within 100 (rq_firstName userData) \<and> within 100 (rq_lastName userData)
      \<and> within 20 (rq_phone userData))"

text \<open>The row that \<^verbatim>\<open>register\<close> inserts, given the hashed password and the role.\<close>

definition new_user_row ::
  "nat \<Rightarrow> database \<Rightarrow> string \<Rightarrow> RegisterRequest \<Rightarrow> UserRole \<Rightarrow> users_row" where
  "new_user_row now db hashedPassword userData role =
     \<lparr> u_id = users_id_seq db, u_email = rq_email userData, u_password = hashedPassword,
       u_first_name = rq_firstName userData, u_last_name = rq_lastName userData,
       u_phone = rq_phone userData, u_role = role, u_is_active = True,
       u_created_at = now, u_updated_at = now \<rparr>"

section \<open>Example states\<close>

definition alice_row :: users_row where
  "alice_row =
     \<lparr> u_id = 1, u_email = ''a@x.com'', u_password = ''$2b$10$secret1'',
       u_first_name = Some ''Alice'', u_last_name = None, u_phone = None,
       u_role = RoleUser, u_is_active = True, u_created_at = 0, u_updated_at = 0 \<rparr>"

definition root_row :: users_row where
  "root_row =
     \<lparr> u_id = 2, u_email = ''admin@gmail.com'', u_password = ''$2b$10$hunter22'',
       u_first_name = Some ''Admin'', u_last_name = Some ''User'', u_phone = None,
       u_role = RoleAdmin, u_is_active = True, u_created_at = 0, u_updated_at = 0 \<rparr>"

definition root_identity :: AuthUser where
  "root_identity = \<lparr> au_id = 2, au_email = ''admin@gmail.com'', au_role = RoleAdmin \<rparr>"

definition db_empty_cart :: database where
  "db_empty_cart =
     \<lparr> users = [alice_row, root_row], cart_items = [], users_id_seq = 3, cart_items_id_seq = 1 \<rparr>"

definition db_purchased :: database where
  "db_purchased =
     \<lparr> users = [alice_row, root_row],
       cart_items =
         [\<lparr> ci_id = 1, ci_user_id = 1, ci_course_id = 5, ci_bought = True, ci_added_at = 0 \<rparr>],
       users_id_seq = 3, cart_items_id_seq = 2 \<rparr>"

definition db_mixed :: database where
  "db_mixed =
     \<lparr> users = [alice_row, root_row],
       cart_items =
         [\<lparr> ci_id = 1, ci_user_id = 1, ci_course_id = 5, ci_bought = True, ci_added_at = 0 \<rparr>,
          \<lparr> ci_id = 2, ci_user_id = 1, ci_course_id = 6, ci_bought = False, ci_added_at = 1 \<rparr>],
       users_id_seq = 3, cart_items_id_seq = 3 \<rparr>"

text \<open>
  Stand-ins for the two libraries in the examples: a hash that prefixes the password,
  and a token codec that knows the two tokens \<^verbatim>\<open>T1\<close> (Alice) and \<^verbatim>\<open>T2\<close> (the admin).
\<close>

definition demo_hash :: bcrypt_hash where
  "demo_hash password rounds = ''$2b$10$'' @ password"

definition demo_compare :: bcrypt_compare where
  "demo_compare password hashed = (hashed = ''$2b$10$'' @ password)"

definition demo_sign :: jwt_sign where
  "demo_sign payload =
     (if jwt_userId payload = 1 then ''T1'' else if jwt_userId payload = 2 then ''T2'' else ''T0'')"

definition demo_verify :: jwt_verify where
  "demo_verify token =
     (if token = ''T1''
        then Some \<lparr> jwt_userId = 1, jwt_email = ''a@x.com'', jwt_role = RoleUser \<rparr>
      else if token = ''T2''
        then Some \<lparr> jwt_userId = 2, jwt_email = ''admin@gmail.com'', jwt_role = RoleAdmin \<rparr>
      else None)"

text \<open>A second request that adds course 5 to Alice's cart, run to its end.\<close>

definition concurrent_add :: "database \<Rightarrow> database" where
  "concurrent_add db = snd (addToCart 7 db 1 5)"

definition eve_request :: RegisterRequest where
  "eve_request =
     \<lparr> rq_email = ''eve@x.com'', rq_password = ''secret1'', rq_firstName = Some ''Eve'',
       rq_lastName = None, rq_phone = None, rq_role = Some RoleAdmin \<rparr>"

definition admin_signup :: register_body where
  "admin_signup =
     \<lparr> b_email = Some ''eve@x.com'', b_password = Some ''secret1'', b_firstName = Some ''Eve'',
       b_lastName = None, b_phone = None, b_role = Some RoleAdmin \<rparr>"

section \<open>Cart service: auxiliary facts\<close>

lemma filter_empty_list_ex: "(filter P xs = []) = (\<not> list_ex P xs)"
  by (induction xs) auto

lemma addToCart_check_absent:
  "\<not> cart_row_exists db u c \<Longrightarrow> addToCart_check db u c = None"
  by (simp add: addToCart_check_def cart_row_exists_def filter_empty_list_ex[symmetric])

lemma addToCart_check_present:
  assumes "cart_row_exists db u c"
  shows "addToCart_check db u c = Some (Error ''Course already in Cart'')"
proof -
  let ?rows = "filter (\<lambda>r. ci_user_id r = u \<and> ci_course_id r = c) (cart_items db)"
  from assms have "?rows \<noteq> []"
    by (simp add: cart_row_exists_def filter_empty_list_ex)
  then obtain r rs where "?rows = r # rs"
    by (cases ?rows) auto
  then show ?thesis
    by (simp add: addToCart_check_def select_cols_def)
qed

lemma insert_cart_item_ok:
  assumes "cart_ids_fresh db" "user_exists db u" "\<not> cart_row_exists db u c"
  shows "insert_cart_item now db u c =
           (Inr (new_cart_row now db u c),
            db\<lparr>cart_items_id_seq := cart_items_id_seq db + 1,
               cart_items := cart_items db @ [new_cart_row now db u c]\<rparr>)"
proof -
  have "\<not> list_ex (\<lambda>r. ci_id r = cart_items_id_seq db) (cart_items db)"
    using assms(1) by (auto simp: cart_ids_fresh_def list_ex_iff list_all_iff)
  then show ?thesis
    using assms(2,3)
    by (simp add: insert_cart_item_def Let_def user_exists_def cart_row_exists_def new_cart_row_def)
qed

lemma addToCart_insert_ok:
  assumes "cart_ids_fresh db" "user_exists db u" "\<not> cart_row_exists db u c"
  shows "addToCart_insert now db u c =
           (Inr \<lparr> item_id = Some (cart_items_id_seq db), item_userId = Some u,
                   item_courseId = Some c, item_addedAt = Some now \<rparr>,
            db\<lparr>cart_items_id_seq := cart_items_id_seq db + 1,
               cart_items := cart_items db @ [new_cart_row now db u c]\<rparr>)"
proof -
  have "filter (\<lambda>r. ci_id r = cart_items_id_seq db) (cart_items db) = []"
    using assms(1) by (auto simp: cart_ids_fresh_def list_all_iff filter_empty_conv)
  then show ?thesis
    using insert_cart_item_ok[OF assms, of now]
    by (simp add: addToCart_insert_def new_cart_row_def select_cols_def mapRowToCartItem_def)
qed

lemma addToCart_ok:
  assumes "cart_ids_fresh db" "user_exists db u" "\<not> cart_row_exists db u c"
  shows "addToCart now db u c =
           (Inr \<lparr> item_id = Some (cart_items_id_seq db), item_userId = Some u,
                   item_courseId = Some c, item_addedAt = Some now \<rparr>,
            db\<lparr>cart_items_id_seq := cart_items_id_seq db + 1,
               cart_items := cart_items db @ [new_cart_row now db u c]\<rparr>)"
  using addToCart_insert_ok[OF assms, of now] addToCart_check_absent[OF assms(3)]
  by (simp add: addToCart_def)

lemma addToCart_present:
  "cart_row_exists db u c \<Longrightarrow> addToCart now db u c = (Inl (Error ''Course already in Cart''), db)"
  by (simp add: addToCart_def addToCart_check_present)

lemma clearCart_commit_rows:
  "cart_items (snd (clearCart db u True))
     = map (\<lambda>r. if ci_user_id r = u then r\<lparr>ci_bought := True\<rparr> else r) (cart_items db)"
  by (simp add: clearCart_def Let_def)

lemma clearCart_commit_result:
  "fst (clearCart db u True) = list_ex (\<lambda>r. ci_user_id r = u) (cart_items db)"
  by (simp add: clearCart_def Let_def filter_empty_list_ex)

lemma clearCart_delete_rows:
  "cart_items (snd (clearCart db u False))
     = filter (\<lambda>r. \<not> (ci_user_id r = u \<and> \<not> ci_bought r)) (cart_items db)"
  by (simp add: clearCart_def Let_def)

lemma clearCart_delete_result:
  "fst (clearCart db u False) = list_ex (\<lambda>r. ci_user_id r = u \<and> \<not> ci_bought r) (cart_items db)"
  by (simp add: clearCart_def Let_def filter_empty_list_ex)

lemma count_after_commit: "getCartItemCount (snd (clearCart db u True)) u = 0"
  by (simp add: getCartItemCount_def clearCart_commit_rows filter_map o_def filter_empty_conv)

lemma count_after_add:
  "getCartItemCount (db\<lparr>cart_items_id_seq := s, cart_items := cart_items db @ [new_cart_row now db' u c]\<rparr>) u
     = getCartItemCount db u + 1"
  by (simp add: getCartItemCount_def new_cart_row_def)

lemma fresh_after_add:
  "cart_ids_fresh db \<Longrightarrow>
   cart_ids_fresh (db\<lparr>cart_items_id_seq := cart_items_id_seq db + 1,
                      cart_items := cart_items db @ [new_cart_row now db u c]\<rparr>)"
  by (auto simp: cart_ids_fresh_def new_cart_row_def list_all_iff)

lemma user_exists_after_add:
  "user_exists (db\<lparr>cart_items_id_seq := s, cart_items := rows\<rparr>) u = user_exists db u"
  by (simp add: user_exists_def)

lemma row_exists_after_add:
  "cart_row_exists (db\<lparr>cart_items_id_seq := s,
                       cart_items := cart_items db @ [new_cart_row now db u c]\<rparr>) u' c'
     = (cart_row_exists db u' c' \<or> (u' = u \<and> c' = c))"
  by (auto simp: cart_row_exists_def new_cart_row_def)

lemma count_as_card:
  assumes "distinct (cart_items db)"
  shows "getCartItemCount db u
           = int (card {r \<in> set (cart_items db). ci_user_id r = u \<and> \<not> ci_bought r})"
proof -
  let ?P = "\<lambda>r. ci_user_id r = u \<and> ci_bought r = False"
  have "distinct (filter ?P (cart_items db))"
    using assms by simp
  then have "card (set (filter ?P (cart_items db))) = length (filter ?P (cart_items db))"
    by (rule distinct_card)
  then show ?thesis
    by (simp add: getCartItemCount_def)
qed

lemma count_ignores_bought:
  "getCartItemCount (db\<lparr>cart_items := filter (\<lambda>r. \<not> ci_bought r) (cart_items db)\<rparr>) u
     = getCartItemCount db u"
proof -
  have "filter (\<lambda>r. ci_user_id r = u \<and> ci_bought r = False) (filter (\<lambda>r. \<not> ci_bought r) (cart_items db))
          = filter (\<lambda>r. ci_user_id r = u \<and> ci_bought r = False) (cart_items db)"
    by (induction "cart_items db") (auto intro: filter_cong)
  then show ?thesis by (simp add: getCartItemCount_def)
qed

lemma concurrent_add_empty:
  "concurrent_add db_empty_cart
     = db_empty_cart\<lparr>cart_items_id_seq := 2, cart_items := [new_cart_row 7 db_empty_cart 1 5]\<rparr>"
  by (simp add: concurrent_add_def addToCart_ok cart_ids_fresh_def user_exists_def
                cart_row_exists_def db_empty_cart_def alice_row_def)

section \<open>User service: auxiliary facts\<close>

lemma register_duplicate:
  "email_exists db (rq_email userData) \<Longrightarrow>
   register hash sign now db userData requester
     = (Inl (Error ''User already exists with this email''), db)"
  by (simp add: register_def email_exists_def filter_empty_list_ex)

lemma column_overflow_fits:
  "(column_overflow (rq_email userData) hashedPassword (rq_firstName userData)
      (rq_lastName userData) (rq_phone userData) = None)
   = fits_columns hashedPassword userData"
  by (auto simp: column_overflow_def fits_columns_def)

lemma insert_user_result:
  "insert_user now db email password first_name last_name phone role =
     (case column_overflow email password first_name last_name phone of
        Some type_name \<Rightarrow> (Inl (value_too_long type_name), db)
      | None \<Rightarrow>
     (if list_ex (\<lambda>r. u_id r = users_id_seq db) (users db)
        then (Inl (unique_violation ''users_pkey''), db\<lparr>users_id_seq := users_id_seq db + 1\<rparr>)
      else if list_ex (\<lambda>r. u_email r = email) (users db)
        then (Inl (unique_violation ''users_email_key''), db\<lparr>users_id_seq := users_id_seq db + 1\<rparr>)
      else (Inr \<lparr> u_id = users_id_seq db, u_email = email, u_password = password,
                  u_first_name = first_name, u_last_name = last_name, u_phone = phone,
                  u_role = role, u_is_active = True, u_created_at = now, u_updated_at = now \<rparr>,
            db\<lparr>users_id_seq := users_id_seq db + 1,
               users := users db @
                 [\<lparr> u_id = users_id_seq db, u_email = email, u_password = password,
                     u_first_name = first_name, u_last_name = last_name, u_phone = phone,
                     u_role = role, u_is_active = True, u_created_at = now, u_updated_at = now \<rparr>]\<rparr>)))"
  by (simp add: insert_user_def Let_def split: option.splits)

text \<open>Every outcome of \<^verbatim>\<open>register\<close>, by the state of the store.\<close>

lemma register_result:
  "register hash sign now db userData requester =
     (if email_exists db (rq_email userData)
        then (Inl (Error ''User already exists with this email''), db)
      else if \<not> fits_columns (hash (rq_password userData) saltRounds) userData
        then (Inl (value_too_long
                     (the (column_overflow (rq_email userData)
                             (hash (rq_password userData) saltRounds) (rq_firstName userData)
                             (rq_lastName userData) (rq_phone userData)))), db)
      else if list_ex (\<lambda>r. u_id r = users_id_seq db) (users db)
        then (Inl (unique_violation ''users_pkey''), db\<lparr>users_id_seq := users_id_seq db + 1\<rparr>)
      else
        (Inr (mapRowToUser
                (new_user_row now db (hash (rq_password userData) saltRounds) userData
                   (if rq_role userData = Some RoleAdmin
                       \<and> (\<exists>a. requester = Some a \<and> au_role a = RoleAdmin)
                    then RoleAdmin else RoleUser)),
              generateToken sign
                (mapRowToUser
                   (new_user_row now db (hash (rq_password userData) saltRounds) userData
                      (if rq_role userData = Some RoleAdmin
                          \<and> (\<exists>a. requester = Some a \<and> au_role a = RoleAdmin)
                       then RoleAdmin else RoleUser)))),
         db\<lparr>users_id_seq := users_id_seq db + 1,
            users := users db @
              [new_user_row now db (hash (rq_password userData) saltRounds) userData
                 (if rq_role userData = Some RoleAdmin
                     \<and> (\<exists>a. requester = Some a \<and> au_role a = RoleAdmin)
                  then RoleAdmin else RoleUser)]\<rparr>))"
proof (cases "email_exists db (rq_email userData)")
  case True
  then show ?thesis by (simp add: register_duplicate)
next
  case False
  then have none: "filter (\<lambda>r. u_email r = rq_email userData) (users db) = []"
    by (simp add: email_exists_def filter_empty_list_ex)
  have role: "(case requester of None \<Rightarrow> False | Some a \<Rightarrow> au_role a = RoleAdmin)
                = (\<exists>a. requester = Some a \<and> au_role a = RoleAdmin)"
    by (cases requester) auto
  from False have no_email: "\<not> list_ex (\<lambda>r. u_email r = rq_email userData) (users db)"
    by (simp add: email_exists_def)
  show ?thesis
  proof (cases "column_overflow (rq_email userData) (hash (rq_password userData) saltRounds)
                  (rq_firstName userData) (rq_lastName userData) (rq_phone userData)")
    case None
    then have "fits_columns (hash (rq_password userData) saltRounds) userData"
      by (simp add: column_overflow_fits)
    then show ?thesis
      using False no_email None
      by (simp add: register_def none insert_user_result role new_user_row_def Let_def)
  next
    case (Some type_name)
    then have "\<not> fits_columns (hash (rq_password userData) saltRounds) userData"
      by (simp add: column_overflow_fits[symmetric])
    then show ?thesis
      using False Some
      by (simp add: register_def none insert_user_result Let_def)
  qed
qed

lemma eve_fits: "fits_columns (demo_hash (rq_password eve_request) saltRounds) eve_request"
  by (simp add: fits_columns_def within_def demo_hash_def eve_request_def)


section \<open>Authentication middleware: auxiliary facts\<close>

lemma authenticate_users_only:
  "users db = users db' \<Longrightarrow> authenticate verify db req = authenticate verify db' req"
  by (auto simp: authenticate_def Let_def split: option.splits)

lemma first_row_as_find:
  "(case filter P xs of [] \<Rightarrow> a | r # _ \<Rightarrow> f r) = (case find P xs of None \<Rightarrow> a | Some r \<Rightarrow> f r)"
  by (induction xs) auto

lemma authenticate_decoded:
  assumes "req_authorization req = Some (''Bearer '' @ token)"
    and "verify token = Some decoded"
  shows "authenticate verify db req =
           (case find (\<lambda>r. u_id r = jwt_userId decoded) (users db) of
              None \<Rightarrow> Responded (json 401 False ''Invalid or expired token'')
            | Some user \<Rightarrow>
                (if \<not> u_is_active user
                   then Responded (json 401 False ''Invalid or expired token'')
                 else Next (req\<lparr>req_user :=
                        Some \<lparr> au_id = u_id user, au_email = u_email user,
                               au_role = u_role user \<rparr>\<rparr>)))"
  using assms by (simp add: authenticate_def first_row_as_find)

lemma find_after_deactivate:
  "find (\<lambda>r. u_id r = uid)
     (map (\<lambda>r. if u_id r = uid then r\<lparr>u_is_active := False, u_updated_at := now\<rparr> else r) xs)
   = map_option (\<lambda>r. r\<lparr>u_is_active := False, u_updated_at := now\<rparr>) (find (\<lambda>r. u_id r = uid) xs)"
  by (induction xs) auto

lemma deactivateUser_users:
  "deactivateUser now db uid requester = (Inr ok, db') \<Longrightarrow>
   users db' = map (\<lambda>r. if u_id r = uid then r\<lparr>u_is_active := False, u_updated_at := now\<rparr> else r)
                 (users db)"
  by (auto simp: deactivateUser_def Let_def split: if_splits)

section \<open>Cart service: properties\<close>

text \<open>
  C6. \<^verbatim>\<open>removeFromCart(u, c)\<close> returns true exactly when a row of (u, c) with
  \<^verbatim>\<open>bought = false\<close> exists, and what it removes from the table are exactly those rows;
  when it returns false the store is unchanged, which is the case whenever the row of
  (u, c) is a purchased one; and after the call \<^verbatim>\<open>isInCart(u, c)\<close> is false.
\<close>

theorem removeFromCart_unbought_only:
  "(fst (removeFromCart db u c) \<longleftrightarrow>
      (\<exists>r\<in>set (cart_items db). ci_user_id r = u \<and> ci_course_id r = c \<and> \<not> ci_bought r))
   \<and> set (cart_items (snd (removeFromCart db u c)))
       = set (cart_items db) - {r. ci_user_id r = u \<and> ci_course_id r = c \<and> \<not> ci_bought r}
   \<and> (\<not> fst (removeFromCart db u c) \<longrightarrow> snd (removeFromCart db u c) = db)
   \<and> (cart_unique db
        \<and> (\<exists>r\<in>set (cart_items db). ci_user_id r = u \<and> ci_course_id r = c \<and> ci_bought r)
        \<longrightarrow> removeFromCart db u c = (False, db))
   \<and> \<not> isInCart (snd (removeFromCart db u c)) u c"
proof -
  let ?hit = "\<lambda>r. ci_user_id r = u \<and> ci_course_id r = c \<and> ci_bought r = False"
  have ret: "fst (removeFromCart db u c) \<longleftrightarrow> (\<exists>r\<in>set (cart_items db). ?hit r)"
    by (auto simp: removeFromCart_def Let_def filter_empty_conv)
  have rows: "cart_items (snd (removeFromCart db u c)) = filter (\<lambda>r. \<not> ?hit r) (cart_items db)"
    by (simp add: removeFromCart_def Let_def)
  have noop: "snd (removeFromCart db u c) = db" if "\<not> fst (removeFromCart db u c)"
  proof -
    from that ret have "\<forall>r\<in>set (cart_items db). \<not> ?hit r" by blast
    then have "filter (\<lambda>r. \<not> ?hit r) (cart_items db) = cart_items db"
      by (simp add: filter_id_conv)
    then show ?thesis by (simp add: removeFromCart_def Let_def)
  qed
  have bought: "removeFromCart db u c = (False, db)"
    if uniq: "cart_unique db"
    and ex: "\<exists>r\<in>set (cart_items db). ci_user_id r = u \<and> ci_course_id r = c \<and> ci_bought r"
  proof -
    from ex obtain r where r: "r \<in> set (cart_items db)" "ci_user_id r = u"
        "ci_course_id r = c" "ci_bought r"
      by blast
    have "\<not> ?hit r'" if "r' \<in> set (cart_items db)" for r'
    proof
      assume h: "?hit r'"
      have "inj_on (\<lambda>r. (ci_user_id r, ci_course_id r)) (set (cart_items db))"
        using uniq by (simp add: cart_unique_def distinct_map)
      then have "r' = r" using that r h by (auto dest: inj_onD)
      with h r show False by simp
    qed
    then have unhit: "\<not> fst (removeFromCart db u c)" using ret by blast
    then have "snd (removeFromCart db u c) = db" by (rule noop)
    with unhit show ?thesis by (simp add: prod_eq_iff)
  qed
  have "\<not> isInCart (snd (removeFromCart db u c)) u c"
    by (simp add: isInCart_def rows filter_empty_conv)
  with ret rows noop bought show ?thesis by auto
qed

theorem removeFromCart_unbought_only_witness:
  "cart_unique db_mixed
   \<and> removeFromCart db_mixed 1 5 = (False, db_mixed)
   \<and> fst (removeFromCart db_mixed 1 6)
   \<and> cart_items (snd (removeFromCart db_mixed 1 6))
       = [\<lparr> ci_id = 1, ci_user_id = 1, ci_course_id = 5, ci_bought = True, ci_added_at = 0 \<rparr>]
   \<and> \<not> isInCart (snd (removeFromCart db_mixed 1 6)) 1 6"
  using removeFromCart_unbought_only [of db_mixed 1 5] removeFromCart_unbought_only [of db_mixed 1 6]
  by (simp add: db_mixed_def cart_unique_def removeFromCart_def isInCart_def)

text \<open>
  C8. \<^verbatim>\<open>getCartItemCount(u)\<close> is the number of u's rows with \<^verbatim>\<open>bought = false\<close>: it is the
  size of that set of rows, it does not change when every purchased row is taken out of
  the table, and it is 0 after \<^verbatim>\<open>clearCart(u, true)\<close>. In particular, adding two courses
  raises it by two and the commit that follows drops it to 0.
\<close>

theorem getCartItemCount_unbought_only:
  "(distinct (cart_items db) \<longrightarrow>
      getCartItemCount db u
        = int (card {r \<in> set (cart_items db). ci_user_id r = u \<and> \<not> ci_bought r}))
   \<and> getCartItemCount (db\<lparr>cart_items := filter (\<lambda>r. \<not> ci_bought r) (cart_items db)\<rparr>) u
        = getCartItemCount db u
   \<and> getCartItemCount (snd (clearCart db u True)) u = 0
   \<and> (cart_ids_fresh db \<and> user_exists db u \<and> c1 \<noteq> c2
        \<and> \<not> cart_row_exists db u c1 \<and> \<not> cart_row_exists db u c2 \<longrightarrow>
        \<not> isl (fst (addToCart n1 db u c1))
        \<and> \<not> isl (fst (addToCart n2 (snd (addToCart n1 db u c1)) u c2))
        \<and> getCartItemCount (snd (addToCart n2 (snd (addToCart n1 db u c1)) u c2)) u
            = getCartItemCount db u + 2
        \<and> getCartItemCount
             (snd (clearCart (snd (addToCart n2 (snd (addToCart n1 db u c1)) u c2)) u True)) u = 0)"
proof -
  have scenario:
    "\<not> isl (fst (addToCart n1 db u c1))
     \<and> \<not> isl (fst (addToCart n2 (snd (addToCart n1 db u c1)) u c2))
     \<and> getCartItemCount (snd (addToCart n2 (snd (addToCart n1 db u c1)) u c2)) u
         = getCartItemCount db u + 2"
    if fresh: "cart_ids_fresh db" and usr: "user_exists db u" and ne: "c1 \<noteq> c2"
      and a1: "\<not> cart_row_exists db u c1" and a2: "\<not> cart_row_exists db u c2"
  proof -
    define db1 where
      "db1 = db\<lparr>cart_items_id_seq := cart_items_id_seq db + 1,
                cart_items := cart_items db @ [new_cart_row n1 db u c1]\<rparr>"
    have first: "addToCart n1 db u c1 =
        (Inr \<lparr> item_id = Some (cart_items_id_seq db), item_userId = Some u,
                item_courseId = Some c1, item_addedAt = Some n1 \<rparr>, db1)"
      unfolding db1_def by (rule addToCart_ok[OF fresh usr a1])
    have fresh1: "cart_ids_fresh db1"
      unfolding db1_def by (rule fresh_after_add[OF fresh])
    have usr1: "user_exists db1 u"
      unfolding db1_def using usr by (simp add: user_exists_after_add)
    have a2': "\<not> cart_row_exists db1 u c2"
      unfolding db1_def using a2 ne by (simp add: row_exists_after_add)
    have cnt1: "getCartItemCount db1 u = getCartItemCount db u + 1"
      unfolding db1_def by (rule count_after_add)
    have second: "addToCart n2 db1 u c2 =
        (Inr \<lparr> item_id = Some (cart_items_id_seq db1), item_userId = Some u,
                item_courseId = Some c2, item_addedAt = Some n2 \<rparr>,
         db1\<lparr>cart_items_id_seq := cart_items_id_seq db1 + 1,
             cart_items := cart_items db1 @ [new_cart_row n2 db1 u c2]\<rparr>)"
      by (rule addToCart_ok[OF fresh1 usr1 a2'])
    have cnt2: "getCartItemCount (snd (addToCart n2 db1 u c2)) u = getCartItemCount db1 u + 1"
      by (simp only: second snd_conv count_after_add)
    show ?thesis
      using cnt1 cnt2 by (simp add: first second)
  qed
  show ?thesis
    using count_as_card[of db u] count_ignores_bought[of db u] count_after_commit scenario
    by blast
qed

theorem getCartItemCount_unbought_only_witness:
  "distinct (cart_items db_mixed)
   \<and> getCartItemCount db_mixed 1
       = int (card {r \<in> set (cart_items db_mixed). ci_user_id r = 1 \<and> \<not> ci_bought r})
   \<and> getCartItemCount db_mixed 1 = 1
   \<and> cart_ids_fresh db_mixed \<and> user_exists db_mixed 1
   \<and> \<not> cart_row_exists db_mixed 1 7 \<and> \<not> cart_row_exists db_mixed 1 8
   \<and> getCartItemCount (snd (addToCart 4 (snd (addToCart 3 db_mixed 1 7)) 1 8)) 1 = 3
   \<and> getCartItemCount
        (snd (clearCart (snd (addToCart 4 (snd (addToCart 3 db_mixed 1 7)) 1 8)) 1 True)) 1 = 0"
proof -
  have hyps: "distinct (cart_items db_mixed) \<and> cart_ids_fresh db_mixed \<and> user_exists db_mixed 1
              \<and> \<not> cart_row_exists db_mixed 1 7 \<and> \<not> cart_row_exists db_mixed 1 8"
    by (simp add: db_mixed_def cart_ids_fresh_def user_exists_def cart_row_exists_def
                  alice_row_def root_row_def)
  have one: "getCartItemCount db_mixed 1 = 1"
    by (simp add: db_mixed_def getCartItemCount_def)
  show ?thesis
    using getCartItemCount_unbought_only [of db_mixed 1 7 8 3 4] hyps one by simp
qed

text \<open>
  C2. \<^verbatim>\<open>addToCart(u, c)\<close> on a row of (u, c) that is already purchased: the existence
  check reads \<^verbatim>\<open>bought\<close> from a row object that holds \<^verbatim>\<open>id\<close> only, so the call fails
  with the message of the unpurchased case, \<^verbatim>\<open>Course already in Cart\<close>, and never with
  \<^verbatim>\<open>You already bought it\<close>. The same happens for add, commit with
  \<^verbatim>\<open>clearCart(u, true)\<close>, add again.
\<close>

theorem addToCart_purchased_reports_in_cart:
  "addToCart 9 db_purchased 1 5 = (Inl (Error ''Course already in Cart''), db_purchased)
   \<and> fst (addToCart 4 (snd (clearCart (snd (addToCart 3 db_empty_cart 1 5)) 1 True)) 1 5)
       = Inl (Error ''Course already in Cart'')"
proof -
  have purchased: "cart_row_exists db_purchased 1 5"
    by (simp add: cart_row_exists_def db_purchased_def)
  have added: "snd (addToCart 3 db_empty_cart 1 5)
      = db_empty_cart\<lparr>cart_items_id_seq := 2, cart_items := [new_cart_row 3 db_empty_cart 1 5]\<rparr>"
    by (simp add: addToCart_ok cart_ids_fresh_def user_exists_def cart_row_exists_def
                  db_empty_cart_def alice_row_def)
  have "cart_row_exists (snd (clearCart (snd (addToCart 3 db_empty_cart 1 5)) 1 True)) 1 5"
    by (simp add: added cart_row_exists_def clearCart_commit_rows new_cart_row_def)
  then show ?thesis
    using purchased by (simp add: addToCart_present)
qed

text \<open>
  C3. \<^verbatim>\<open>clearCart(u, true)\<close> for a user whose only row is already purchased: the UPDATE
  selects that row, so the call returns true (and leaves the store as it was), where no
  row went from unbought to bought.
\<close>

theorem clearCart_commit_counts_purchased_rows:
  "clearCart db_purchased 1 True = (True, db_purchased)"
  by (simp add: clearCart_def db_purchased_def)

text \<open>
  C10, as stated, at a concrete race: the check of the first request passes on the empty
  cart, a second request inserts (1, 5) before the first one's INSERT, and the first
  request does not fail with \<^verbatim>\<open>Course already in Cart\<close>.
\<close>

theorem addToCart_race_counterexample:
  "fst (addToCart_interleaved 9 db_empty_cart concurrent_add 1 5)
     \<noteq> Inl (Error ''Course already in Cart'')"
proof -
  have "addToCart_check db_empty_cart 1 5 = None"
    by (simp add: addToCart_check_absent cart_row_exists_def db_empty_cart_def)
  moreover have "insert_cart_item 9 (concurrent_add db_empty_cart) 1 5
      = (Inl (unique_violation ''cart_items_user_id_course_id_key''),
         (concurrent_add db_empty_cart)\<lparr>cart_items_id_seq := 3\<rparr>)"
    unfolding concurrent_add_empty
    by (simp add: insert_cart_item_def new_cart_row_def db_empty_cart_def)
  ultimately show ?thesis
    by (simp add: addToCart_interleaved_def addToCart_insert_def unique_violation_def)
qed

text \<open>
  C10, amended. When the existence check of \<^verbatim>\<open>addToCart(u, c)\<close> has passed and another
  request has inserted the row of (u, c) before the INSERT runs, the store rejects the
  INSERT on UNIQUE(user_id, course_id) and the service passes that error on untranslated:
  the call fails with the store's unique-violation error (SQLSTATE 23505), whose message
  is not \<^verbatim>\<open>Course already in Cart\<close>; only the sequence has advanced.
\<close>

theorem addToCart_race_store_error:
  assumes "addToCart_check db u c = None"
    and "cart_row_exists (others db) u c"
    and "cart_ids_fresh (others db)"
  shows "addToCart_interleaved now db others u c
           = (Inl (unique_violation ''cart_items_user_id_course_id_key''),
              (others db)\<lparr>cart_items_id_seq := cart_items_id_seq (others db) + 1\<rparr>)
         \<and> fst (addToCart_interleaved now db others u c) \<noteq> Inl (Error ''Course already in Cart'')
         \<and> message (unique_violation ''cart_items_user_id_course_id_key'')
             \<noteq> ''Course already in Cart''"
proof -
  have "\<not> list_ex (\<lambda>r. ci_id r = cart_items_id_seq (others db)) (cart_items (others db))"
    using assms(3) by (auto simp: cart_ids_fresh_def list_ex_iff list_all_iff)
  then have "insert_cart_item now (others db) u c
      = (Inl (unique_violation ''cart_items_user_id_course_id_key''),
         (others db)\<lparr>cart_items_id_seq := cart_items_id_seq (others db) + 1\<rparr>)"
    using assms(2) by (simp add: insert_cart_item_def cart_row_exists_def Let_def)
  then show ?thesis
    using assms(1)
    by (simp add: addToCart_interleaved_def addToCart_insert_def unique_violation_def)
qed

theorem addToCart_race_store_error_witness:
  "addToCart_check db_empty_cart 1 5 = None
   \<and> cart_row_exists (concurrent_add db_empty_cart) 1 5
   \<and> cart_ids_fresh (concurrent_add db_empty_cart)
   \<and> fst (addToCart_interleaved 9 db_empty_cart concurrent_add 1 5)
       = Inl (unique_violation ''cart_items_user_id_course_id_key'')"
proof -
  have h1: "addToCart_check db_empty_cart 1 5 = None"
    by (simp add: addToCart_check_absent cart_row_exists_def db_empty_cart_def)
  have h2: "cart_row_exists (concurrent_add db_empty_cart) 1 5"
    unfolding concurrent_add_empty by (simp add: cart_row_exists_def new_cart_row_def)
  have h3: "cart_ids_fresh (concurrent_add db_empty_cart)"
    unfolding concurrent_add_empty
    by (simp add: cart_ids_fresh_def new_cart_row_def db_empty_cart_def)
  show ?thesis
    using addToCart_race_store_error
            [where db = db_empty_cart and u = 1 and c = 5 and others = concurrent_add and now = 9]
          h1 h2 h3
    by simp
qed

section \<open>User service: properties\<close>



text \<open>
  C9. Provided \<^verbatim>\<open>bcrypt.compare\<close> accepts a password against its own \<^verbatim>\<open>bcrypt.hash\<close>:
  when \<^verbatim>\<open>register\<close> with e-mail e and password p succeeds and returns a user, \<^verbatim>\<open>login\<close>
  with (e, p) on the resulting store succeeds and returns that same user, hence the same
  id.
\<close>

theorem register_then_login:
  assumes bcrypt: "\<forall>password. compare password (hash password saltRounds)"
    and registered: "register hash sign now db userData requester = (Inr (user, token), db')"
  shows "login compare sign' db' \<lparr> lg_email = rq_email userData, lg_password = rq_password userData \<rparr>
           = Inr (user, generateToken sign' user)"
proof -
  define role where
    "role = (if rq_role userData = Some RoleAdmin \<and> (\<exists>a. requester = Some a \<and> au_role a = RoleAdmin)
             then RoleAdmin else RoleUser)"
  define row where
    "row = new_user_row now db (hash (rq_password userData) saltRounds) userData role"
  from registered have fresh: "\<not> email_exists db (rq_email userData)"
    unfolding register_result by (auto split: if_splits)
  from registered have user: "user = mapRowToUser row"
    and db': "users db' = users db @ [row]"
    unfolding register_result row_def role_def by (auto split: if_splits)
  from fresh have "filter (\<lambda>r. u_email r = rq_email userData \<and> u_is_active r) (users db) = []"
    by (auto simp: email_exists_def list_ex_iff filter_empty_conv)
  then have found:
    "filter (\<lambda>r. u_email r = rq_email userData \<and> u_is_active r) (users db') = [row]"
    by (simp add: db' row_def new_user_row_def)
  have "compare (rq_password userData) (u_password row)"
    using bcrypt by (simp add: row_def new_user_row_def)
  then show ?thesis
    by (simp add: login_def found user Let_def)
qed

theorem register_then_login_witness:
  "(\<forall>password. demo_compare password (demo_hash password saltRounds))
   \<and> \<not> isl (fst (register demo_hash demo_sign 3 db_empty_cart eve_request None))
   \<and> map_sum id (usr_id \<circ> fst) (fst (register demo_hash demo_sign 3 db_empty_cart eve_request None))
       = Inr 3
   \<and> map_sum id (usr_id \<circ> fst)
        (login demo_compare demo_sign
           (snd (register demo_hash demo_sign 3 db_empty_cart eve_request None))
           \<lparr> lg_email = ''eve@x.com'', lg_password = ''secret1'' \<rparr>)
       = Inr 3"
proof -
  have bcrypt: "\<forall>password. demo_compare password (demo_hash password saltRounds)"
    by (simp add: demo_compare_def demo_hash_def)
  have nopk: "\<not> list_ex (\<lambda>r. u_id r = users_id_seq db_empty_cart) (users db_empty_cart)"
    by (simp add: db_empty_cart_def alice_row_def root_row_def)
  have fresh: "\<not> email_exists db_empty_cart (rq_email eve_request)"
    by (simp add: email_exists_def db_empty_cart_def eve_request_def alice_row_def root_row_def)
  obtain user token db' where
    reg: "register demo_hash demo_sign 3 db_empty_cart eve_request None = (Inr (user, token), db')"
    and uid: "usr_id user = 3"
    using nopk fresh eve_fits unfolding register_result
    by (simp add: mapRowToUser_def new_user_row_def db_empty_cart_def)
  have cred: "\<lparr> lg_email = rq_email eve_request, lg_password = rq_password eve_request \<rparr>
                = \<lparr> lg_email = ''eve@x.com'', lg_password = ''secret1'' \<rparr>"
    by (simp add: eve_request_def)
  have "login demo_compare demo_sign db'
          \<lparr> lg_email = rq_email eve_request, lg_password = rq_password eve_request \<rparr>
        = Inr (user, generateToken demo_sign user)"
    using bcrypt reg by (rule register_then_login)
  then show ?thesis
    using bcrypt uid unfolding cred by (simp add: reg)
qed

section \<open>HTTP layer: properties\<close>

text \<open>
  C1. For a request whose header is \<^verbatim>\<open>Bearer\<close> followed by a token that verifies:
  when the store has no row for the decoded \<^verbatim>\<open>userId\<close>, or the row is inactive,
  \<^verbatim>\<open>authenticate\<close> answers 401 and neither attaches an identity nor calls the next
  handler. So it does on the store that any successful \<^verbatim>\<open>deactivateUser\<close> of that user
  leaves, although the token still verifies.
\<close>

theorem authenticate_rejects_stale_identity:
  assumes header: "req_authorization req = Some (''Bearer '' @ token)"
    and verified: "verify token = Some decoded"
  shows "((case find (\<lambda>r. u_id r = jwt_userId decoded) (users db) of
             None \<Rightarrow> True | Some r \<Rightarrow> \<not> u_is_active r)
          \<longrightarrow> authenticate verify db req = Responded (json 401 False ''Invalid or expired token''))
       \<and> (\<forall>now requester ok db'.
            deactivateUser now db (jwt_userId decoded) requester = (Inr ok, db')
            \<longrightarrow> authenticate verify db' req
                  = Responded (json 401 False ''Invalid or expired token''))"
proof -
  have decoded: "authenticate verify d req =
           (case find (\<lambda>r. u_id r = jwt_userId decoded) (users d) of
              None \<Rightarrow> Responded (json 401 False ''Invalid or expired token'')
            | Some user \<Rightarrow>
                (if \<not> u_is_active user
                   then Responded (json 401 False ''Invalid or expired token'')
                 else Next (req\<lparr>req_user :=
                        Some \<lparr> au_id = u_id user, au_email = u_email user,
                               au_role = u_role user \<rparr>\<rparr>)))" for d
    using header verified by (rule authenticate_decoded)
  have stale: "authenticate verify db req = Responded (json 401 False ''Invalid or expired token'')"
    if "case find (\<lambda>r. u_id r = jwt_userId decoded) (users db) of
          None \<Rightarrow> True | Some r \<Rightarrow> \<not> u_is_active r"
    using that unfolding decoded by (auto split: option.splits)
  have deactivated:
    "authenticate verify db' req = Responded (json 401 False ''Invalid or expired token'')"
    if "deactivateUser now db (jwt_userId decoded) requester = (Inr ok, db')"
    for now requester ok db'
  proof -
    from that have "users db' =
        map (\<lambda>r. if u_id r = jwt_userId decoded
                  then r\<lparr>u_is_active := False, u_updated_at := now\<rparr> else r) (users db)"
      by (rule deactivateUser_users)
    then show ?thesis
      unfolding decoded by (simp add: find_after_deactivate split: option.splits)
  qed
  from stale deactivated show ?thesis by blast
qed

theorem authenticate_rejects_stale_identity_witness:
  "req_authorization (incoming (Some ''Bearer T1'') ()) = Some (''Bearer '' @ ''T1'')
   \<and> demo_verify ''T1'' = Some \<lparr> jwt_userId = 1, jwt_email = ''a@x.com'', jwt_role = RoleUser \<rparr>
   \<and> authenticate demo_verify db_empty_cart (incoming (Some ''Bearer T1'') ())
       = Next ((incoming (Some ''Bearer T1'') ())
                 \<lparr>req_user := Some \<lparr> au_id = 1, au_email = ''a@x.com'', au_role = RoleUser \<rparr>\<rparr>)
   \<and> fst (deactivateUser 5 db_empty_cart 1 root_identity) = Inr True
   \<and> authenticate demo_verify (snd (deactivateUser 5 db_empty_cart 1 root_identity))
        (incoming (Some ''Bearer T1'') ())
       = Responded (json 401 False ''Invalid or expired token'')"
proof -
  have header: "req_authorization (incoming (Some ''Bearer T1'') ()) = Some (''Bearer '' @ ''T1'')"
    by (simp add: incoming_def)
  have verified: "demo_verify ''T1'' = Some \<lparr> jwt_userId = 1, jwt_email = ''a@x.com'', jwt_role = RoleUser \<rparr>"
    by (simp add: demo_verify_def)
  note decoded = authenticate_decoded
    [where verify = demo_verify and token = "''T1''" and req = "incoming (Some ''Bearer T1'') ()"
       and decoded = "\<lparr> jwt_userId = 1, jwt_email = ''a@x.com'', jwt_role = RoleUser \<rparr>",
     OF header verified]
  have before: "authenticate demo_verify db_empty_cart (incoming (Some ''Bearer T1'') ())
       = Next ((incoming (Some ''Bearer T1'') ())
                 \<lparr>req_user := Some \<lparr> au_id = 1, au_email = ''a@x.com'', au_role = RoleUser \<rparr>\<rparr>)"
    unfolding decoded by (simp add: db_empty_cart_def alice_row_def)
  have ok: "fst (deactivateUser 5 db_empty_cart 1 root_identity) = Inr True"
    by (simp add: deactivateUser_def root_identity_def db_empty_cart_def alice_row_def)
  then have deact: "deactivateUser 5 db_empty_cart 1 root_identity
      = (Inr True, snd (deactivateUser 5 db_empty_cart 1 root_identity))"
    by (simp add: prod_eq_iff)
  have "\<forall>now requester ok db'.
          deactivateUser now db_empty_cart 1 requester = (Inr ok, db')
          \<longrightarrow> authenticate demo_verify db' (incoming (Some ''Bearer T1'') ())
                = Responded (json 401 False ''Invalid or expired token'')"
    using authenticate_rejects_stale_identity
            [where verify = demo_verify and token = "''T1''"
               and req = "incoming (Some ''Bearer T1'') ()"
               and decoded = "\<lparr> jwt_userId = 1, jwt_email = ''a@x.com'', jwt_role = RoleUser \<rparr>"
               and db = db_empty_cart,
             OF header verified]
    by simp
  then have after: "authenticate demo_verify (snd (deactivateUser 5 db_empty_cart 1 root_identity))
        (incoming (Some ''Bearer T1'') ())
       = Responded (json 401 False ''Invalid or expired token'')"
    using deact by blast
  show ?thesis
    using header verified before after ok by simp
qed

text \<open>
  C5. Whatever the request to \<^verbatim>\<open>POST /api/auth/register\<close> (any Authorization header, any
  body): the route runs the controller on a request without identity, so the call either
  leaves the table of users as it is or appends one row, whose role is user; a user in
  the response has role user.
\<close>

theorem POST_register_creates_plain_users:
  assumes "POST_api_auth_register hash sign now db authHeader body = (res, db')"
  shows "(users db' = users db \<or> (\<exists>row. users db' = users db @ [row] \<and> u_role row = RoleUser))
         \<and> (\<forall>user. res_user res = Some user \<longrightarrow> usr_role user = RoleUser)"
proof -
  have reg: "register hash sign now db userData None =
     (if email_exists db (rq_email userData)
        then (Inl (Error ''User already exists with this email''), db)
      else if \<not> fits_columns (hash (rq_password userData) saltRounds) userData
        then (Inl (value_too_long
                     (the (column_overflow (rq_email userData)
                             (hash (rq_password userData) saltRounds) (rq_firstName userData)
                             (rq_lastName userData) (rq_phone userData)))), db)
      else if list_ex (\<lambda>r. u_id r = users_id_seq db) (users db)
        then (Inl (unique_violation ''users_pkey''), db\<lparr>users_id_seq := users_id_seq db + 1\<rparr>)
      else
        (Inr (mapRowToUser
                (new_user_row now db (hash (rq_password userData) saltRounds) userData RoleUser),
              generateToken sign
                (mapRowToUser
                   (new_user_row now db (hash (rq_password userData) saltRounds) userData RoleUser))),
         db\<lparr>users_id_seq := users_id_seq db + 1,
            users := users db @
              [new_user_row now db (hash (rq_password userData) saltRounds) userData RoleUser]\<rparr>))"
    for userData
    unfolding register_result by simp
  show ?thesis
    using assms
    unfolding POST_api_auth_register_def AuthController_register_def incoming_def
    by (auto simp: reg json_def mapRowToUser_def new_user_row_def
             split: option.splits if_splits)
qed

theorem POST_register_creates_plain_users_witness:
  "status (fst (POST_api_auth_register demo_hash demo_sign 3 db_empty_cart
                  (Some ''Bearer T2'') admin_signup)) = 201
   \<and> map_option usr_role
        (res_user (fst (POST_api_auth_register demo_hash demo_sign 3 db_empty_cart
                          (Some ''Bearer T2'') admin_signup))) = Some RoleUser
   \<and> map u_role (users (snd (POST_api_auth_register demo_hash demo_sign 3 db_empty_cart
                               (Some ''Bearer T2'') admin_signup)))
       = [RoleUser, RoleAdmin, RoleUser]"
proof -
  have email: "emailRegex_test ''eve@x.com''"
    by (simp add: emailRegex_test_def plain_def is_space_def)
  have reg: "register demo_hash demo_sign 3 db_empty_cart eve_request None
      = (Inr (mapRowToUser (new_user_row 3 db_empty_cart (demo_hash ''secret1'' saltRounds)
                 eve_request RoleUser),
              generateToken demo_sign
                (mapRowToUser (new_user_row 3 db_empty_cart (demo_hash ''secret1'' saltRounds)
                   eve_request RoleUser))),
         db_empty_cart\<lparr>users_id_seq := 4,
           users := users db_empty_cart @
             [new_user_row 3 db_empty_cart (demo_hash ''secret1'' saltRounds) eve_request RoleUser]\<rparr>)"
    using eve_fits unfolding register_result
    by (simp add: email_exists_def eve_request_def db_empty_cart_def alice_row_def root_row_def)
  have run: "POST_api_auth_register demo_hash demo_sign 3 db_empty_cart (Some ''Bearer T2'') admin_signup
      = ((json 201 True ''User registered successfully'')
           \<lparr>res_user := Some (mapRowToUser (new_user_row 3 db_empty_cart
                                 (demo_hash ''secret1'' saltRounds) eve_request RoleUser)),
            res_token := Some (generateToken demo_sign
                (mapRowToUser (new_user_row 3 db_empty_cart (demo_hash ''secret1'' saltRounds)
                   eve_request RoleUser)))\<rparr>,
         db_empty_cart\<lparr>users_id_seq := 4,
           users := users db_empty_cart @
             [new_user_row 3 db_empty_cart (demo_hash ''secret1'' saltRounds) eve_request RoleUser]\<rparr>)"
    using email reg
    by (simp add: POST_api_auth_register_def AuthController_register_def incoming_def
                  admin_signup_def eve_request_def)
  show ?thesis
    using POST_register_creates_plain_users [OF run]
    unfolding run
    by (simp add: json_def mapRowToUser_def new_user_row_def db_empty_cart_def
                  alice_row_def root_row_def)
qed

text \<open>
  C7. \<^verbatim>\<open>POST /api/cart\<close> with \<^verbatim>\<open>courseId = 5\<close>, twice, by the same authenticated user:
  the first answer is 201; the second is 500 with the message \<^verbatim>\<open>Course already in Cart\<close>,
  because the controller answers 409 only for the message \<^verbatim>\<open>Course already in cart\<close>.
\<close>

theorem POST_api_cart_twice_second_is_500:
  "status (fst (POST_api_cart demo_verify 3 db_empty_cart (Some ''Bearer T1'') (Some 5))) = 201
   \<and> fst (POST_api_cart demo_verify 4
            (snd (POST_api_cart demo_verify 3 db_empty_cart (Some ''Bearer T1'') (Some 5)))
            (Some ''Bearer T1'') (Some 5))
       = json 500 False ''Course already in Cart''"
proof -
  have auth: "authenticate demo_verify (db\<lparr>cart_items_id_seq := s, cart_items := rows\<rparr>) req
              = authenticate demo_verify db req" for db s rows and req :: "(int option) Request"
    by (rule authenticate_users_only) simp
  have alice: "authenticate demo_verify db_empty_cart (incoming (Some ''Bearer T1'') (Some (5::int)))
      = Next \<lparr> req_authorization = Some ''Bearer T1'', req_body = Some 5,
               req_user = Some \<lparr> au_id = 1, au_email = ''a@x.com'', au_role = RoleUser \<rparr> \<rparr>"
    by (simp add: authenticate_def incoming_def demo_verify_def db_empty_cart_def alice_row_def)
  have first: "addToCart 3 db_empty_cart 1 5
      = (Inr \<lparr> item_id = Some 1, item_userId = Some 1, item_courseId = Some 5, item_addedAt = Some 3 \<rparr>,
         db_empty_cart\<lparr>cart_items_id_seq := 2, cart_items := [new_cart_row 3 db_empty_cart 1 5]\<rparr>)"
    by (simp add: addToCart_ok cart_ids_fresh_def user_exists_def cart_row_exists_def
                  db_empty_cart_def alice_row_def)
  have post1: "POST_api_cart demo_verify 3 db_empty_cart (Some ''Bearer T1'') (Some 5)
      = ((json 201 True ''Course added to cart successfully'')
           \<lparr>res_item := Some \<lparr> item_id = Some 1, item_userId = Some 1,
                               item_courseId = Some 5, item_addedAt = Some 3 \<rparr>\<rparr>,
         db_empty_cart\<lparr>cart_items_id_seq := 2, cart_items := [new_cart_row 3 db_empty_cart 1 5]\<rparr>)"
    by (simp add: POST_api_cart_def alice CartController_addToCart_def first)
  have again: "addToCart 4
        (db_empty_cart\<lparr>cart_items_id_seq := 2, cart_items := [new_cart_row 3 db_empty_cart 1 5]\<rparr>) 1 5
      = (Inl (Error ''Course already in Cart''),
         db_empty_cart\<lparr>cart_items_id_seq := 2, cart_items := [new_cart_row 3 db_empty_cart 1 5]\<rparr>)"
    by (rule addToCart_present) (simp add: cart_row_exists_def new_cart_row_def)
  have post2: "POST_api_cart demo_verify 4
        (db_empty_cart\<lparr>cart_items_id_seq := 2, cart_items := [new_cart_row 3 db_empty_cart 1 5]\<rparr>)
        (Some ''Bearer T1'') (Some 5)
      = (json 500 False ''Course already in Cart'',
         db_empty_cart\<lparr>cart_items_id_seq := 2, cart_items := [new_cart_row 3 db_empty_cart 1 5]\<rparr>)"
    by (simp add: POST_api_cart_def auth alice CartController_addToCart_def again)
  show ?thesis
    unfolding post1 by (simp add: post2 json_def)
qed

end
